theory Spec2Isabelle
  imports Main
begin

section \<open>The checkpoint directory\<close>

text \<open>
  The three checkpoint functions of \<^verbatim>\<open>assignment3/utils.py\<close> work on one directory:
  \<^verbatim>\<open>filepath.parent\<close> for \<^verbatim>\<open>save_checkpoint\<close>, \<^verbatim>\<open>directory\<close> for the other two. The
  model is the state of that one path: it does not exist, it is something that is not a
  directory, or it is a directory with entries keyed by file name. An entry is a regular
  file or a subdirectory. A regular file holds what \<^verbatim>\<open>torch.save\<close> wrote (the state,
  kept opaque) or a text. The state type \<open>'st\<close> stands for \<^verbatim>\<open>state_dict\<close>.

  Outside the model: symbolic links, permissions, a full disk, the ancestors of the
  directory, and text beyond the code points below 256 (a \<open>char\<close> is read as one code
  point). A name that leads out of the directory (it contains a slash or a NUL) stops the
  model with \<open>OutsideDirectory\<close>, so nothing is said about such a run.
\<close>

datatype error =
    AssertionError
  | FileExistsError
  | FileNotFoundError
  | NotADirectoryError
  | IsADirectoryError
  | UnicodeDecodeError
  | UnpicklingError
  | OutsideDirectory

datatype 'st content = Blob 'st | Text string

datatype 'st node = File "'st content" | SubDir

type_synonym 'st entries = "string \<Rightarrow> 'st node option"

datatype 'st store = Absent | NotDir | Dir "'st entries"

text \<open>
  An operation returns its result, or the exception it raised, together with the state it
  left behind: Python rolls nothing back when an exception leaves a function.
\<close>

type_synonym ('a, 'st) outcome = "(error + 'a) \<times> 'st store"

definition and_then ::
  "('a, 'st) outcome \<Rightarrow> ('a \<Rightarrow> 'st store \<Rightarrow> ('b, 'st) outcome) \<Rightarrow> ('b, 'st) outcome" where
  "and_then r f = (case r of (Inl err, st) \<Rightarrow> (Inl err, st) | (Inr x, st) \<Rightarrow> f x st)"

definition latest_checkpoint :: string where
  "latest_checkpoint = ''latest_checkpoint''"

definition best_ckpt :: string where
  "best_ckpt = ''best.ckpt''"

subsection \<open>Paths below the directory\<close>

text \<open>
  \<^verbatim>\<open>directory.joinpath(s)\<close>: the empty string and a dot give the directory itself, two dots
  its parent (a directory as well), any other string without a slash names an entry.
\<close>

datatype target = Entry string | TheDir | Elsewhere

definition joinpath :: "string \<Rightarrow> target" where
  "joinpath s =
     (if CHR ''/'' \<in> set s \<or> CHR 0x00 \<in> set s then Elsewhere
      else if s = [] \<or> s = ''.'' \<or> s = ''..'' then TheDir
      else Entry s)"

definition lookup :: "'st store \<Rightarrow> string \<Rightarrow> 'st node option" where
  "lookup st n = (case st of Dir e \<Rightarrow> e n | _ \<Rightarrow> None)"

definition is_dir :: "'st store \<Rightarrow> bool" where
  "is_dir st = (case st of Dir e \<Rightarrow> True | _ \<Rightarrow> False)"

definition is_file :: "string \<Rightarrow> 'st store \<Rightarrow> bool" where
  "is_file n st = (case lookup st n of Some (File c) \<Rightarrow> True | _ \<Rightarrow> False)"

text \<open>\<^verbatim>\<open>path.exists()\<close> for \<^verbatim>\<open>path = directory.joinpath(s)\<close>.\<close>

definition path_exists :: "string \<Rightarrow> 'st store \<Rightarrow> error + bool" where
  "path_exists s st =
     (case joinpath s of
        Elsewhere \<Rightarrow> Inl OutsideDirectory
      | TheDir \<Rightarrow> Inr (is_dir st)
      | Entry n \<Rightarrow> Inr (lookup st n \<noteq> None))"

text \<open>\<^verbatim>\<open>path.unlink()\<close>: removes a regular file, raises on a directory.\<close>

definition unlink :: "string \<Rightarrow> 'st store \<Rightarrow> (unit, 'st) outcome" where
  "unlink s st =
     (case joinpath s of
        Elsewhere \<Rightarrow> (Inl OutsideDirectory, st)
      | TheDir \<Rightarrow> (if is_dir st then (Inl IsADirectoryError, st) else (Inl FileNotFoundError, st))
      | Entry n \<Rightarrow>
          (case st of
             Dir e \<Rightarrow>
               (case e n of
                  None \<Rightarrow> (Inl FileNotFoundError, st)
                | Some SubDir \<Rightarrow> (Inl IsADirectoryError, st)
                | Some (File c) \<Rightarrow> (Inr (), Dir (e(n := None))))
           | _ \<Rightarrow> (Inl FileNotFoundError, st)))"

text \<open>
  Opening \<^verbatim>\<open>directory.joinpath(s)\<close> for writing and writing \<open>c\<close>: the file is created
  or replaced.
\<close>

definition write_file :: "string \<Rightarrow> 'st content \<Rightarrow> 'st store \<Rightarrow> (unit, 'st) outcome" where
  "write_file s c st =
     (case st of
        Absent \<Rightarrow> (Inl FileNotFoundError, st)
      | NotDir \<Rightarrow> (Inl NotADirectoryError, st)
      | Dir e \<Rightarrow>
          (case joinpath s of
             Elsewhere \<Rightarrow> (Inl OutsideDirectory, st)
           | TheDir \<Rightarrow> (Inl IsADirectoryError, st)
           | Entry n \<Rightarrow>
               (if e n = Some SubDir then (Inl IsADirectoryError, st)
                else (Inr (), Dir (e(n \<mapsto> File c))))))"

text \<open>\<^verbatim>\<open>torch.save(state_dict, path)\<close> and \<^verbatim>\<open>torch.load(path)\<close>, kept opaque.\<close>

definition torch_save :: "'st \<Rightarrow> string \<Rightarrow> 'st store \<Rightarrow> (unit, 'st) outcome" where
  "torch_save state_dict s st = write_file s (Blob state_dict) st"

definition torch_load :: "'st content \<Rightarrow> error + 'st" where
  "torch_load c = (case c of Blob state_dict \<Rightarrow> Inr state_dict | Text t \<Rightarrow> Inl UnpicklingError)"

text \<open>\<^verbatim>\<open>directory.mkdir(exist_ok=True, parents=True)\<close>.\<close>

definition mkdir :: "'st store \<Rightarrow> (unit, 'st) outcome" where
  "mkdir st =
     (case st of
        Absent \<Rightarrow> (Inr (), Dir Map.empty)
      | NotDir \<Rightarrow> (Inl FileExistsError, st)
      | Dir e \<Rightarrow> (Inr (), st))"

text \<open>\<^verbatim>\<open>path.touch(exist_ok=True)\<close> for the entry \<open>n\<close> of an existing directory.\<close>

definition touch :: "string \<Rightarrow> 'st store \<Rightarrow> (unit, 'st) outcome" where
  "touch n st =
     (case st of
        Absent \<Rightarrow> (Inl FileNotFoundError, st)
      | NotDir \<Rightarrow> (Inl NotADirectoryError, st)
      | Dir e \<Rightarrow>
          (case e n of
             None \<Rightarrow> (Inr (), Dir (e(n \<mapsto> File (Text []))))
           | Some x \<Rightarrow> (Inr (), st)))"

subsection \<open>Text files\<close>

definition LF :: char where
  "LF = CHR 0x0A"

definition CR :: char where
  "CR = CHR 0x0D"

text \<open>\<^verbatim>\<open>str.isspace\<close> on the code points below 256.\<close>

definition is_space :: "char \<Rightarrow> bool" where
  "is_space c \<longleftrightarrow>
     c \<in> set [CHR 0x09, CHR 0x0A, CHR 0x0B, CHR 0x0C, CHR 0x0D, CHR 0x1C, CHR 0x1D,
              CHR 0x1E, CHR 0x1F, CHR 0x20, CHR 0x85, CHR 0xA0]"

text \<open>\<^verbatim>\<open>s.strip()\<close>.\<close>

definition strip :: "string \<Rightarrow> string" where
  "strip s = rev (dropWhile is_space (rev (dropWhile is_space s)))"

text \<open>
  Reading in text mode with the default \<^verbatim>\<open>newline=None\<close>: a carriage return, with or
  without a line feed after it, arrives as one line feed.
\<close>

fun universal_newlines :: "string \<Rightarrow> string" where
  "universal_newlines [] = []"
| "universal_newlines [c] = (if c = CR then [LF] else [c])"
| "universal_newlines (c # d # cs) =
     (if c = CR \<and> d = LF then LF # universal_newlines cs
      else if c = CR then LF # universal_newlines (d # cs)
      else c # universal_newlines (d # cs))"

text \<open>\<^verbatim>\<open>fp.readlines()\<close>: every line keeps its line feed; a last line may lack one.\<close>

fun readlines :: "string \<Rightarrow> string list" where
  "readlines [] = []"
| "readlines (c # cs) =
     (if c = LF then [LF] # readlines cs
      else (case readlines cs of [] \<Rightarrow> [[c]] | l # ls \<Rightarrow> (c # l) # ls))"

text \<open>\<^verbatim>\<open>sep.join(xs)\<close>.\<close>

fun join :: "string \<Rightarrow> string list \<Rightarrow> string" where
  "join sep [] = []"
| "join sep [x] = x"
| "join sep (x # y # ys) = x @ sep @ join sep (y # ys)"

text \<open>
  \<^verbatim>\<open>open(path)\<close> and \<^verbatim>\<open>fp.readlines()\<close>. A file that \<^verbatim>\<open>torch.save\<close> wrote is binary:
  reading it as text is taken to fail in the decoder.
\<close>

definition open_readlines :: "string \<Rightarrow> 'st store \<Rightarrow> (string list, 'st) outcome" where
  "open_readlines n st =
     (case lookup st n of
        None \<Rightarrow> (Inl FileNotFoundError, st)
      | Some SubDir \<Rightarrow> (Inl IsADirectoryError, st)
      | Some (File (Blob b)) \<Rightarrow> (Inl UnicodeDecodeError, st)
      | Some (File (Text t)) \<Rightarrow> (Inr (readlines (universal_newlines t)), st))"

subsection \<open>Slices\<close>

text \<open>\<^verbatim>\<open>xs[k:]\<close> and \<^verbatim>\<open>xs[:k]\<close>: a negative bound counts from the end.\<close>

definition py_drop :: "int \<Rightarrow> 'a list \<Rightarrow> 'a list" where
  "py_drop k xs = (if 0 \<le> k then drop (nat k) xs else drop (nat (int (length xs) + k)) xs)"

definition py_take :: "int \<Rightarrow> 'a list \<Rightarrow> 'a list" where
  "py_take k xs = (if 0 \<le> k then take (nat k) xs else take (nat (int (length xs) + k)) xs)"

section \<open>The checkpoint functions\<close>

text \<open>
  \<^verbatim>\<open>
  def get_previous_checkpoints(directory: pathlib.Path) -> list:
      assert directory.is_dir()
      list_path = directory.joinpath("latest_checkpoint")
      list_path.touch(exist_ok=True)
      with open(list_path) as fp:
          ckpt_list = fp.readlines()
      return [_.strip() for _ in ckpt_list]
  \<close>
\<close>

definition get_previous_checkpoints :: "'st store \<Rightarrow> (string list, 'st) outcome" where
  "get_previous_checkpoints directory =
     (if \<not> is_dir directory then (Inl AssertionError, directory)
      else
        and_then (touch latest_checkpoint directory) (\<lambda>_ st1.
        and_then (open_readlines latest_checkpoint st1) (\<lambda>ckpt_list st2.
        (Inr (map strip ckpt_list), st2))))"

text \<open>
  The loop of \<^verbatim>\<open>save_checkpoint\<close>:
  \<^verbatim>\<open>
  for ckpt in previous_checkpoints[max_keep:]:
      path = filepath.parent.joinpath(ckpt)
      if path.exists():
          path.unlink()
  \<close>
\<close>

fun unlink_old :: "string list \<Rightarrow> 'st store \<Rightarrow> (unit, 'st) outcome" where
  "unlink_old [] st = (Inr (), st)"
| "unlink_old (ckpt # rest) st =
     (case path_exists ckpt st of
        Inl err \<Rightarrow> (Inl err, st)
      | Inr False \<Rightarrow> unlink_old rest st
      | Inr True \<Rightarrow> and_then (unlink ckpt st) (\<lambda>_ st'. unlink_old rest st'))"

text \<open>
  \<^verbatim>\<open>
  def save_checkpoint(state_dict, filepath, is_best, max_keep=1):
      filepath.parent.mkdir(exist_ok=True, parents=True)
      list_path = filepath.parent.joinpath("latest_checkpoint")
      torch.save(state_dict, filepath)
      if is_best:
          torch.save(state_dict, filepath.parent.joinpath("best.ckpt"))
      previous_checkpoints = get_previous_checkpoints(filepath.parent)
      if filepath.name not in previous_checkpoints:
          previous_checkpoints = [filepath.name] + previous_checkpoints
      if len(previous_checkpoints) > max_keep:
          for ckpt in previous_checkpoints[max_keep:]:
              ...
      previous_checkpoints = previous_checkpoints[:max_keep]
      with open(list_path, "w") as fp:
          fp.write("\n".join(previous_checkpoints))
  \<close>
  The model takes the state of \<^verbatim>\<open>filepath.parent\<close> and \<open>name\<close>, which is
  \<^verbatim>\<open>filepath.name\<close>.
\<close>

definition add_checkpoint :: "string \<Rightarrow> string list \<Rightarrow> string list" where
  "add_checkpoint name previous_checkpoints =
     (if name \<notin> set previous_checkpoints then name # previous_checkpoints
      else previous_checkpoints)"

definition save_checkpoint ::
  "'st \<Rightarrow> string \<Rightarrow> bool \<Rightarrow> int \<Rightarrow> 'st store \<Rightarrow> (unit, 'st) outcome" where
  "save_checkpoint state_dict name is_best max_keep parent =
     and_then (mkdir parent) (\<lambda>_ st0.
     and_then (torch_save state_dict name st0) (\<lambda>_ st1.
     and_then (if is_best then torch_save state_dict best_ckpt st1 else (Inr (), st1)) (\<lambda>_ st2.
     and_then (get_previous_checkpoints st2) (\<lambda>previous st3.
     and_then
       (if int (length (add_checkpoint name previous)) > max_keep
        then unlink_old (py_drop max_keep (add_checkpoint name previous)) st3
        else (Inr (), st3)) (\<lambda>_ st4.
     write_file latest_checkpoint
       (Text (join [LF] (py_take max_keep (add_checkpoint name previous)))) st4)))))"

text \<open>
  \<^verbatim>\<open>
  def load_best_checkpoint(directory: pathlib.Path):
      filepath = directory.joinpath("best.ckpt")
      if not filepath.is_file():
          return None
      return torch.load(directory.joinpath("best.ckpt"))
  \<close>
\<close>

definition load_best_checkpoint :: "'st store \<Rightarrow> ('st option, 'st) outcome" where
  "load_best_checkpoint directory =
     (if \<not> is_file best_ckpt directory then (Inr None, directory)
      else
        (case lookup directory best_ckpt of
           Some (File c) \<Rightarrow>
             (case torch_load c of
                Inl err \<Rightarrow> (Inl err, directory)
              | Inr state_dict \<Rightarrow> (Inr (Some state_dict), directory))
         | _ \<Rightarrow> (Inl FileNotFoundError, directory)))"

section \<open>Sequences of calls and the vocabulary of the proofs\<close>

text \<open>A call of \<^verbatim>\<open>save_checkpoint\<close>: state, file name, \<^verbatim>\<open>is_best\<close> and \<^verbatim>\<open>max_keep\<close>.\<close>

type_synonym 'st call = "'st \<times> string \<times> bool \<times> int"

text \<open>Calls one after the other on the same directory; an exception ends the run.\<close>

fun save_all :: "'st call list \<Rightarrow> 'st store \<Rightarrow> (unit, 'st) outcome" where
  "save_all [] st = (Inr (), st)"
| "save_all ((state_dict, name, is_best, max_keep) # calls) st =
     and_then (save_checkpoint state_dict name is_best max_keep st) (\<lambda>_ st'. save_all calls st')"

text \<open>The entries of a directory; a path that is no directory has none.\<close>

definition entries_of :: "'st store \<Rightarrow> 'st entries" where
  "entries_of st = (case st of Dir e \<Rightarrow> e | _ \<Rightarrow> Map.empty)"

text \<open>The lines that \<^verbatim>\<open>get_previous_checkpoints\<close> reads from a manifest it can read.\<close>

definition manifest :: "'st entries \<Rightarrow> string list" where
  "manifest e =
     (case e latest_checkpoint of
        Some (File (Text t)) \<Rightarrow> map strip (readlines (universal_newlines t))
      | _ \<Rightarrow> [])"

text \<open>The entries after the one or two \<^verbatim>\<open>torch.save\<close> calls of \<^verbatim>\<open>save_checkpoint\<close>.\<close>

definition saved :: "'st \<Rightarrow> string \<Rightarrow> bool \<Rightarrow> 'st entries \<Rightarrow> 'st entries" where
  "saved state_dict name is_best e =
     (if is_best then (e(name \<mapsto> File (Blob state_dict)))(best_ckpt \<mapsto> File (Blob state_dict))
      else e(name \<mapsto> File (Blob state_dict)))"

text \<open>The manifest is missing or a text file.\<close>

definition readable :: "'st entries \<Rightarrow> bool" where
  "readable e \<longleftrightarrow> e latest_checkpoint = None \<or> (\<exists>t. e latest_checkpoint = Some (File (Text t)))"

text \<open>The second half of \<^verbatim>\<open>save_checkpoint\<close>, from the reading of the manifest on.\<close>

definition rotate :: "string \<Rightarrow> int \<Rightarrow> 'st store \<Rightarrow> (unit, 'st) outcome" where
  "rotate name max_keep st2 =
     and_then (get_previous_checkpoints st2) (\<lambda>previous st3.
     and_then
       (if int (length (add_checkpoint name previous)) > max_keep
        then unlink_old (py_drop max_keep (add_checkpoint name previous)) st3
        else (Inr (), st3)) (\<lambda>_ st4.
     write_file latest_checkpoint
       (Text (join [LF] (py_take max_keep (add_checkpoint name previous)))) st4))"

section \<open>Example directories\<close>

text \<open>A directory with one checkpoint, its manifest and a file of another kind.\<close>

definition logged :: "nat store" where
  "logged = Dir (Map.empty(''a'' \<mapsto> File (Blob 1), ''log'' \<mapsto> File (Text ''x''),
     latest_checkpoint \<mapsto> File (Text ''a'')))"



section \<open>Basic facts\<close>

lemma and_then_simps [simp]:
  "and_then (Inl err, st) f = (Inl err, st)"
  "and_then (Inr x, st) f = f x st"
  by (simp_all add: and_then_def)

lemma and_then_Inr:
  "and_then r f = (Inr y, st') \<longleftrightarrow> (\<exists>x st. r = (Inr x, st) \<and> f x st = (Inr y, st'))"
  by (cases r; cases "fst r") (auto simp: and_then_def)

lemma lookup_Dir [simp]: "lookup (Dir e) n = e n"
  by (simp add: lookup_def)


lemma entries_of_simps [simp]:
  "entries_of (Dir e) = e" "entries_of Absent = Map.empty" "entries_of NotDir = Map.empty"
  by (simp_all add: entries_of_def)

lemma is_dir_simps [simp]: "is_dir (Dir e)" "\<not> is_dir Absent" "\<not> is_dir NotDir"
  by (simp_all add: is_dir_def)

lemma joinpath_Entry: "joinpath s = Entry n \<Longrightarrow> n = s"
  by (auto simp: joinpath_def split: if_splits)

lemma joinpath_reserved [simp]:
  "joinpath latest_checkpoint = Entry latest_checkpoint"
  "joinpath best_ckpt = Entry best_ckpt"
  by (simp_all add: joinpath_def latest_checkpoint_def best_ckpt_def)

lemma reserved_distinct [simp]:
  "latest_checkpoint \<noteq> best_ckpt" "best_ckpt \<noteq> latest_checkpoint"
  by (simp_all add: latest_checkpoint_def best_ckpt_def)

lemma mkdir_Inr: "mkdir st = (Inr u, st0) \<longleftrightarrow> st \<noteq> NotDir \<and> st0 = Dir (entries_of st)"
  by (cases st) (auto simp: mkdir_def)

lemma write_file_Inr:
  "write_file s c (Dir e) = (Inr u, st') \<longleftrightarrow>
     joinpath s = Entry s \<and> e s \<noteq> Some SubDir \<and> st' = Dir (e(s \<mapsto> File c))"
  by (auto simp: write_file_def split: target.splits dest: joinpath_Entry)

lemma get_previous_checkpoints_Inr:
  "get_previous_checkpoints (Dir e) = (Inr previous, st') \<longleftrightarrow>
     readable e \<and> previous = manifest e \<and>
     st' = Dir (if e latest_checkpoint = None then e(latest_checkpoint \<mapsto> File (Text [])) else e)"
  by (auto simp: get_previous_checkpoints_def touch_def open_readlines_def manifest_def readable_def
      split: option.splits node.splits content.splits)

lemma unlink_old_Inr:
  "unlink_old cs (Dir e) = (Inr u, st') \<longleftrightarrow>
     (\<forall>c\<in>set cs. joinpath c = Entry c \<and> e c \<noteq> Some SubDir) \<and> st' = Dir (e |` (- set cs))"
proof (induction cs arbitrary: e)
  case Nil
  then show ?case by auto
next
  case (Cons c cs)
  show ?case
  proof (cases "joinpath c")
    case (Entry n)
    then have n: "n = c" by (rule joinpath_Entry)
    show ?thesis
    proof (cases "e c")
      case None
      have "e |` (- set (c # cs)) = e |` (- set cs)"
        using None by (auto simp: restrict_map_def fun_eq_iff)
      with None Entry n Cons.IH [of e] show ?thesis
        by (simp add: path_exists_def)
    next
      case (Some x)
      show ?thesis
      proof (cases x)
        case (File b)
        have step: "unlink_old (c # cs) (Dir e) = unlink_old cs (Dir (e(c := None)))"
          using Some File Entry n by (simp add: path_exists_def unlink_def)
        have maps: "(e(c := None)) |` (- set cs) = e |` (- set (c # cs))"
          by (auto simp: restrict_map_def fun_eq_iff)
        have cond: "(\<forall>d\<in>set cs. joinpath d = Entry d \<and> (e(c := None)) d \<noteq> Some SubDir) \<longleftrightarrow>
            (\<forall>d\<in>set (c # cs). joinpath d = Entry d \<and> e d \<noteq> Some SubDir)"
          using Some File Entry n by auto
        show ?thesis
          unfolding step Cons.IH [of "e(c := None)"] maps cond ..
      next
        case SubDir
        with Some Entry n show ?thesis
          by (simp add: path_exists_def unlink_def)
      qed
    qed
  next
    case TheDir
    then show ?thesis by (auto simp: path_exists_def unlink_def)
  next
    case Elsewhere
    then show ?thesis by (auto simp: path_exists_def)
  qed
qed

lemma py_drop_short: "int (length xs) \<le> k \<Longrightarrow> py_drop k xs = []"
  by (simp add: py_drop_def)


lemma if_outcome_Inr:
  "(if b then r else (Inr x, st)) = (Inr y, st') \<longleftrightarrow> (b \<and> r = (Inr y, st')) \<or> (\<not> b \<and> x = y \<and> st = st')"
  by auto


lemma save_checkpoint_rotate:
  "save_checkpoint s name b k parent =
     and_then (mkdir parent) (\<lambda>_ st0.
     and_then (torch_save s name st0) (\<lambda>_ st1.
     and_then (if b then torch_save s best_ckpt st1 else (Inr (), st1)) (\<lambda>_ st2.
     rotate name k st2)))"
  by (simp add: save_checkpoint_def rotate_def)

lemma rotate_unreadable:
  "\<not> readable e \<Longrightarrow> rotate name k (Dir e) \<noteq> (Inr u, st')"
  by (simp add: rotate_def and_then_Inr get_previous_checkpoints_Inr)

lemma rotate_readable:
  assumes "readable e"
  shows "rotate name k (Dir e) = (Inr u, st') \<longleftrightarrow>
     (\<forall>c\<in>set (py_drop k (add_checkpoint name (manifest e))).
        joinpath c = Entry c \<and> e c \<noteq> Some SubDir) \<and>
     st' = Dir ((e |` (- set (py_drop k (add_checkpoint name (manifest e)))))
                 (latest_checkpoint \<mapsto> File (Text (join [LF] (py_take k (add_checkpoint name (manifest e)))))))"
proof -
  let ?e3 = "if e latest_checkpoint = None then e(latest_checkpoint \<mapsto> File (Text [])) else e"
  let ?new = "add_checkpoint name (manifest e)"
  let ?D = "py_drop k ?new"
  let ?T = "File (Text (join [LF] (py_take k ?new)))"
  have gp: "get_previous_checkpoints (Dir e) = (Inr (manifest e), Dir ?e3)"
    using assms by (simp only: get_previous_checkpoints_Inr)
  have un: "(if int (length ?new) > k then unlink_old ?D (Dir ?e3) else (Inr (), Dir ?e3))
      = unlink_old ?D (Dir ?e3)"
    by (simp add: py_drop_short)
  have sub: "?e3 c \<noteq> Some SubDir \<longleftrightarrow> e c \<noteq> Some SubDir" for c
    by auto
  have fin: "((?e3 |` (- set ?D))(latest_checkpoint \<mapsto> ?T)) = ((e |` (- set ?D))(latest_checkpoint \<mapsto> ?T))"
    by (auto simp: fun_eq_iff restrict_map_def)
  have wr: "(?e3 |` (- set ?D)) latest_checkpoint \<noteq> Some SubDir"
    using assms by (auto simp: restrict_map_def readable_def)
  have "rotate name k (Dir e) = and_then (unlink_old ?D (Dir ?e3)) (\<lambda>_ st4. write_file latest_checkpoint (Text (join [LF] (py_take k ?new))) st4)"
    unfolding rotate_def gp and_then_simps un ..
  then show ?thesis
    using wr by (simp add: and_then_Inr unlink_old_Inr write_file_Inr sub fin)
qed

lemma saves_Inr:
  "and_then (torch_save s name (Dir e)) (\<lambda>_ st1.
     and_then (if b then torch_save s best_ckpt st1 else (Inr (), st1)) (\<lambda>_ st2. f st2)) = (Inr u, st')
   \<longleftrightarrow> joinpath name = Entry name \<and> e name \<noteq> Some SubDir \<and>
       (b \<longrightarrow> name = best_ckpt \<or> e best_ckpt \<noteq> Some SubDir) \<and>
       f (Dir (saved s name b e)) = (Inr u, st')"
  by (cases b) (auto simp: and_then_Inr torch_save_def write_file_Inr saved_def)

lemma saved_latest:
  "name \<noteq> latest_checkpoint \<Longrightarrow> saved s name b e latest_checkpoint = e latest_checkpoint"
  by (simp add: saved_def)

lemma saved_Blob_latest:
  "saved s latest_checkpoint b e latest_checkpoint = Some (File (Blob s))"
  by (simp add: saved_def)

lemma readable_saved:
  "readable (saved s name b e) \<longleftrightarrow> name \<noteq> latest_checkpoint \<and> readable e"
  by (cases "name = latest_checkpoint") (simp_all add: readable_def saved_latest saved_Blob_latest)

lemma manifest_saved:
  "name \<noteq> latest_checkpoint \<Longrightarrow> manifest (saved s name b e) = manifest e"
  by (simp add: manifest_def saved_latest)

lemma save_checkpoint_Dir_Inr:
  "save_checkpoint s name b k (Dir e) = (Inr u, st') \<longleftrightarrow>
     joinpath name = Entry name \<and> name \<noteq> latest_checkpoint \<and>
     e name \<noteq> Some SubDir \<and> (b \<longrightarrow> name = best_ckpt \<or> e best_ckpt \<noteq> Some SubDir) \<and>
     readable e \<and>
     (\<forall>c\<in>set (py_drop k (add_checkpoint name (manifest e))).
        joinpath c = Entry c \<and> saved s name b e c \<noteq> Some SubDir) \<and>
     st' = Dir ((saved s name b e |` (- set (py_drop k (add_checkpoint name (manifest e)))))
                 (latest_checkpoint \<mapsto> File (Text (join [LF] (py_take k (add_checkpoint name (manifest e)))))))"
proof (cases "readable (saved s name b e)")
  case True
  then have "name \<noteq> latest_checkpoint" "readable e"
    by (simp_all add: readable_saved)
  with True show ?thesis
    by (simp add: save_checkpoint_rotate mkdir_def saves_Inr rotate_readable manifest_saved)
next
  case False
  then have "\<not> (name \<noteq> latest_checkpoint \<and> readable e)"
    by (simp add: readable_saved)
  with False show ?thesis
    by (auto simp: save_checkpoint_rotate mkdir_def saves_Inr rotate_unreadable)
qed

lemma save_checkpoint_mkdir:
  "st \<noteq> NotDir \<Longrightarrow> save_checkpoint s name b k st = save_checkpoint s name b k (Dir (entries_of st))"
  by (cases st) (simp_all add: save_checkpoint_def mkdir_def)

lemma save_checkpoint_NotDir:
  "save_checkpoint s name b k NotDir = (Inl FileExistsError, NotDir)"
  by (simp add: save_checkpoint_def mkdir_def)

lemma save_checkpoint_Inr:
  "fst (save_checkpoint s name b k parent) = Inr () \<Longrightarrow>
   snd (save_checkpoint s name b k parent) =
     Dir ((saved s name b (entries_of parent) |`
            (- set (py_drop k (add_checkpoint name (manifest (entries_of parent))))))
          (latest_checkpoint \<mapsto>
             File (Text (join [LF] (py_take k (add_checkpoint name (manifest (entries_of parent))))))))"
proof -
  assume ok: "fst (save_checkpoint s name b k parent) = Inr ()"
  then have "parent \<noteq> NotDir"
    by (auto simp: save_checkpoint_NotDir)
  then have eq: "save_checkpoint s name b k parent = save_checkpoint s name b k (Dir (entries_of parent))"
    by (rule save_checkpoint_mkdir)
  have "save_checkpoint s name b k (Dir (entries_of parent)) =
      (Inr (), snd (save_checkpoint s name b k (Dir (entries_of parent))))"
    using ok unfolding eq by (simp add: prod_eq_iff)
  then show ?thesis
    unfolding eq save_checkpoint_Dir_Inr by simp
qed



lemmas text_defs = manifest_def entries_of_def

lemmas run_defs = save_checkpoint_def and_then_def mkdir_def torch_save_def write_file_def
  joinpath_def get_previous_checkpoints_def touch_def open_readlines_def lookup_def is_dir_def
  add_checkpoint_def py_drop_def py_take_def path_exists_def unlink_def strip_def is_space_def
  LF_def CR_def latest_checkpoint_def best_ckpt_def load_best_checkpoint_def is_file_def torch_load_def

section \<open>Reading the list of checkpoints\<close>

text \<open>
  Claim C5. On a path that is not a directory (it does not exist, or it is something
  else), \<^verbatim>\<open>get_previous_checkpoints\<close> raises the assertion error and leaves everything as
  it was: the manifest is neither created nor read, and no list is returned.
\<close>

theorem get_previous_checkpoints_not_a_directory:
  "\<not> is_dir directory \<Longrightarrow> get_previous_checkpoints directory = (Inl AssertionError, directory)"
  by (simp add: get_previous_checkpoints_def)

theorem get_previous_checkpoints_not_a_directory_witness:
  "\<not> is_dir (Absent :: nat store) \<and> \<not> is_dir (NotDir :: nat store) \<and>
   get_previous_checkpoints (Absent :: nat store) = (Inl AssertionError, Absent) \<and>
   get_previous_checkpoints (NotDir :: nat store) = (Inl AssertionError, NotDir)"
  using get_previous_checkpoints_not_a_directory [of "Absent :: nat store"]
    get_previous_checkpoints_not_a_directory [of "NotDir :: nat store"]
  by (simp add: is_dir_def)

text \<open>
  Claim C6. In an existing directory without the file \<^verbatim>\<open>latest_checkpoint\<close>,
  \<^verbatim>\<open>get_previous_checkpoints\<close> creates that file empty, returns the empty list and raises
  nothing.
\<close>

theorem get_previous_checkpoints_missing_manifest:
  "e latest_checkpoint = None \<Longrightarrow>
   get_previous_checkpoints (Dir e) = (Inr [], Dir (e(latest_checkpoint \<mapsto> File (Text []))))"
  by (simp add: get_previous_checkpoints_def touch_def open_readlines_def)

theorem get_previous_checkpoints_missing_manifest_witness:
  "(Map.empty :: nat entries) latest_checkpoint = None \<and>
   get_previous_checkpoints (Dir (Map.empty :: nat entries)) =
     (Inr [], Dir (Map.empty(latest_checkpoint \<mapsto> File (Text []))))"
  using get_previous_checkpoints_missing_manifest [of "Map.empty :: nat entries"]
  by simp

section \<open>Loading the best checkpoint\<close>

text \<open>
  Claim C7. \<^verbatim>\<open>load_best_checkpoint\<close> returns \<^verbatim>\<open>None\<close>, and no error, when
  \<^verbatim>\<open>best.ckpt\<close> is not a regular file of the directory. When it is one, the result is
  what \<^verbatim>\<open>torch.load\<close> makes of its content: the state that \<^verbatim>\<open>torch.save\<close> wrote there.
  The directory is left as it was, and the result does not depend on the manifest:
  replacing or removing \<^verbatim>\<open>latest_checkpoint\<close> changes nothing.
\<close>

theorem load_best_checkpoint_result:
  "(\<not> is_file best_ckpt directory \<longrightarrow> load_best_checkpoint directory = (Inr None, directory)) \<and>
   (\<forall>c. lookup directory best_ckpt = Some (File c) \<longrightarrow>
      load_best_checkpoint directory = (map_sum id Some (torch_load c), directory)) \<and>
   (\<forall>state_dict. lookup directory best_ckpt = Some (File (Blob state_dict)) \<longrightarrow>
      load_best_checkpoint directory = (Inr (Some state_dict), directory)) \<and>
   (\<forall>e x. fst (load_best_checkpoint (Dir (e(latest_checkpoint := x)))) =
      fst (load_best_checkpoint (Dir e)))"
  by (auto simp: load_best_checkpoint_def is_file_def torch_load_def lookup_def
      latest_checkpoint_def best_ckpt_def split: option.splits node.splits content.splits sum.splits)

theorem load_best_checkpoint_result_witness:
  "\<not> is_file best_ckpt (Absent :: nat store) \<and>
   load_best_checkpoint (Absent :: nat store) = (Inr None, Absent) \<and>
   lookup (Dir (Map.empty(best_ckpt \<mapsto> File (Blob (7 :: nat))))) best_ckpt = Some (File (Blob 7)) \<and>
   load_best_checkpoint (Dir (Map.empty(best_ckpt \<mapsto> File (Blob (7 :: nat))))) =
     (Inr (Some 7), Dir (Map.empty(best_ckpt \<mapsto> File (Blob 7))))"
  using load_best_checkpoint_result [of "Absent :: nat store"]
    load_best_checkpoint_result [of "Dir (Map.empty(best_ckpt \<mapsto> File (Blob (7 :: nat))))"]
  by (auto simp add: is_file_def lookup_def)

section \<open>Reserved file names\<close>

text \<open>
  Claim C10. \<^verbatim>\<open>save_checkpoint\<close> treats \<^verbatim>\<open>best.ckpt\<close> like any other file name.
  With \<^verbatim>\<open>max_keep = 1\<close> in a new directory: a first save of \<open>x\<close> with
  \<^verbatim>\<open>is_best\<close> makes \<^verbatim>\<open>load_best_checkpoint\<close> return its state. A second save
  under the name \<^verbatim>\<open>best.ckpt\<close>, not flagged best, puts that name in the manifest. A
  third save of \<open>y\<close> drops it from the manifest and deletes the file, and
  \<^verbatim>\<open>load_best_checkpoint\<close> returns \<^verbatim>\<open>None\<close>.
\<close>

theorem best_ckpt_rotated_away:
  "fst (load_best_checkpoint (snd (save_all [(s1, ''x'', True, 1)] Absent))) = Inr (Some s1) \<and>
   fst (save_all [(s1, ''x'', True, 1), (s2, best_ckpt, False, 1)] Absent) = Inr () \<and>
   fst (get_previous_checkpoints
     (snd (save_all [(s1, ''x'', True, 1), (s2, best_ckpt, False, 1)] Absent))) = Inr [best_ckpt] \<and>
   is_file best_ckpt (snd (save_all [(s1, ''x'', True, 1), (s2, best_ckpt, False, 1)] Absent)) \<and>
   fst (save_all [(s1, ''x'', True, 1), (s2, best_ckpt, False, 1), (s3, ''y'', False, 1)] Absent) = Inr () \<and>
   fst (get_previous_checkpoints
     (snd (save_all [(s1, ''x'', True, 1), (s2, best_ckpt, False, 1), (s3, ''y'', False, 1)] Absent))) = Inr [''y''] \<and>
   lookup (snd (save_all [(s1, ''x'', True, 1), (s2, best_ckpt, False, 1), (s3, ''y'', False, 1)] Absent))
     best_ckpt = None \<and>
   fst (load_best_checkpoint
     (snd (save_all [(s1, ''x'', True, 1), (s2, best_ckpt, False, 1), (s3, ''y'', False, 1)] Absent))) = Inr None"
  by (simp add: run_defs)

section \<open>What a save writes and deletes\<close>






text \<open>
  Claim C2, as stated, fails: the test of \<^verbatim>\<open>save_checkpoint\<close> is membership in the whole
  list, not a comparison with the first entry. After saving \<open>a\<close> and \<open>b\<close> with
  \<^verbatim>\<open>max_keep = 2\<close> the manifest is \<open>b, a\<close>; saving \<open>a\<close> again leaves it so, where
  prepending would give \<open>a, b\<close>.
\<close>

theorem prepend_only_if_first_counterexample:
  "fst (save_all [(1 :: nat, ''a'', False, 2), (2, ''b'', False, 2)] Absent) = Inr () \<and>
   fst (get_previous_checkpoints
     (snd (save_all [(1 :: nat, ''a'', False, 2), (2, ''b'', False, 2)] Absent))) = Inr [''b'', ''a''] \<and>
   fst (save_all [(1 :: nat, ''a'', False, 2), (2, ''b'', False, 2), (3, ''a'', False, 2)] Absent) = Inr () \<and>
   fst (get_previous_checkpoints
     (snd (save_all [(1 :: nat, ''a'', False, 2), (2, ''b'', False, 2), (3, ''a'', False, 2)] Absent))) =
       Inr [''b'', ''a''] \<and>
   py_take 2 (''a'' # [''b'', ''a'']) = [''a'', ''b'']"
  by (simp add: run_defs)

text \<open>
  Claim C2, amended. The file name is put in front of the list read from the manifest if
  and only if it occurs nowhere in that list; otherwise the list stays as read. When
  \<^verbatim>\<open>save_checkpoint\<close> returns, the manifest holds the first \<^verbatim>\<open>max_keep\<close> entries of
  that list, joined by line feeds.
\<close>

theorem save_checkpoint_manifest_written:
  "(fst (save_checkpoint state_dict name is_best max_keep parent) = Inr () \<longrightarrow>
      lookup (snd (save_checkpoint state_dict name is_best max_keep parent)) latest_checkpoint =
        Some (File (Text (join [LF]
          (py_take max_keep (add_checkpoint name (manifest (entries_of parent)))))))) \<and>
   (add_checkpoint name previous = name # previous \<longleftrightarrow> name \<notin> set previous) \<and>
   (add_checkpoint name previous = previous \<longleftrightarrow> name \<in> set previous)"
  by (auto simp: save_checkpoint_Inr add_checkpoint_def)

theorem save_checkpoint_manifest_written_witness:
  "fst (save_checkpoint 2 ''b'' False 2 logged) = Inr () \<and>
   manifest (entries_of logged) = [''a''] \<and>
   lookup (snd (save_checkpoint 2 ''b'' False 2 logged)) latest_checkpoint =
     Some (File (Text (''b'' @ [LF] @ ''a''))) \<and>
   fst (save_checkpoint 3 ''a'' False 2 logged) = Inr () \<and>
   lookup (snd (save_checkpoint 3 ''a'' False 2 logged)) latest_checkpoint =
     Some (File (Text ''a''))"
proof -
  have h1: "fst (save_checkpoint 2 ''b'' False 2 logged) = Inr ()"
    and h2: "fst (save_checkpoint 3 ''a'' False 2 logged) = Inr ()"
    by (simp_all add: logged_def run_defs)
  have m: "manifest (entries_of logged) = [''a'']"
    by (simp add: logged_def run_defs text_defs)
  have t1: "join [LF] (py_take 2 (add_checkpoint ''b'' [''a''])) = ''b'' @ [LF] @ ''a''"
    and t2: "join [LF] (py_take 2 (add_checkpoint ''a'' [''a''])) = ''a''"
    by (simp_all add: add_checkpoint_def py_take_def)
  show ?thesis
    using save_checkpoint_manifest_written [of 2 "''b''" False 2 logged]
      save_checkpoint_manifest_written [of 3 "''a''" False 2 logged] h1 h2 m t1 t2
    by simp
qed

end
